theory Spec2Isabelle
  imports Main
begin

section \<open>Synalinks Memory CLI: cell formatting\<close>

text \<open>
  The source is \<^verbatim>\<open>src/synalinks_memory_cli/main.py\<close>. Python strings are modelled by
  \<^typ>\<open>string\<close>, one \<^typ>\<open>char\<close> standing for one code point, so that \<^const>\<open>length\<close> is
  Python's \<^verbatim>\<open>len\<close> and \<^const>\<open>take\<close> is the slice \<^verbatim>\<open>s[:n]\<close>.

  A \<^verbatim>\<open>rich.text.Text\<close> object is its plain string and its style.
\<close>

datatype rich_text = Text (plain: string) (style: string)

text \<open>
  \<^verbatim>\<open>rich.control.strip_control_codes\<close>: the string without the code points 7, 8, 11, 12
  and 13 (bell, backspace, vertical tab, form feed, carriage return), which are the list
  \<^verbatim>\<open>STRIP_CONTROL_CODES\<close> of \<^verbatim>\<open>rich\<close>.
\<close>

definition STRIP_CONTROL_CODES :: "char list" where
  "STRIP_CONTROL_CODES = [CHR 0x07, CHR 0x08, CHR 0x0B, CHR 0x0C, CHR 0x0D]"

definition strip_control_codes :: "string \<Rightarrow> string" where
  "strip_control_codes s = filter (\<lambda>c. c \<notin> set STRIP_CONTROL_CODES) s"

text \<open>
  The constructor call \<^verbatim>\<open>Text(s, style=st)\<close>: \<^verbatim>\<open>Text.__init__\<close> keeps
  \<^verbatim>\<open>strip_control_codes(s)\<close> as the plain string of the object. \<^verbatim>\<open>Text(s)\<close> has the empty
  style.
\<close>

definition Text_init :: "string \<Rightarrow> string \<Rightarrow> rich_text" where
  "Text_init s st = Text (strip_control_codes s) st"

text \<open>
  \<^verbatim>\<open>_format_cell(value)\<close>, lines 256-263. The argument is any Python object: \<open>None\<close> is
  Python's \<^verbatim>\<open>None\<close>, \<open>Some v\<close> any other object, and \<open>str_of\<close> is Python's \<^verbatim>\<open>str\<close> on
  these objects.
\<close>

definition format_cell :: "('v \<Rightarrow> string) \<Rightarrow> 'v option \<Rightarrow> rich_text" where
  "format_cell str_of val =
     (case val of
        None \<Rightarrow> Text_init ''null'' ''dim italic''
      | Some v \<Rightarrow>
          (let s = str_of v;
               s = (if length s > 80 then take 77 s @ ''...'' else s)
           in Text_init s ''''))"

text \<open>
  A row of a result is a dictionary from column names to values, and a value may be
  \<^verbatim>\<open>None\<close>. \<^verbatim>\<open>row.get(name)\<close> is \<^verbatim>\<open>None\<close> for a missing key as well as for a key that
  holds \<^verbatim>\<open>None\<close>.
\<close>

type_synonym 'v row = "string \<rightharpoonup> 'v option"

definition row_get :: "'v row \<Rightarrow> string \<Rightarrow> 'v option" where
  "row_get r k = (case r k of None \<Rightarrow> None | Some v \<Rightarrow> v)"

text \<open>
  The list comprehension of lines 152 and 190,
  \<^verbatim>\<open>[_format_cell(row.get(col.name)) for col in result.columns]\<close>, over the column names.
\<close>

definition render_row :: "('v \<Rightarrow> string) \<Rightarrow> string list \<Rightarrow> 'v row \<Rightarrow> rich_text list" where
  "render_row str_of cols r = map (\<lambda>c. format_cell str_of (row_get r c)) cols"

section \<open>Strings and numbers as Python prints them\<close>

text \<open>\<^verbatim>\<open>sep.join(parts)\<close>.\<close>

fun join :: "string \<Rightarrow> string list \<Rightarrow> string" where
  "join sep [] = []"
| "join sep [x] = x"
| "join sep (x # y # ys) = x @ sep @ join sep (y # ys)"

text \<open>
  Truthiness of an optional string, as in \<^verbatim>\<open>if api_key:\<close> and \<^verbatim>\<open>if output and not fmt:\<close>:
  \<^verbatim>\<open>None\<close> and the empty string are false.
\<close>

fun truthy :: "string option \<Rightarrow> bool" where
  "truthy None = False"
| "truthy (Some s) = (s \<noteq> [])"

definition digit :: "nat \<Rightarrow> char" where
  "digit d = ''0123456789'' ! (d mod 10)"

text \<open>\<^verbatim>\<open>str(n)\<close> for an integer: decimal digits, with a minus sign when negative.\<close>

fun str_nat :: "nat \<Rightarrow> string" where
  "str_nat n = (if n < 10 then [digit n] else str_nat (n div 10) @ [digit n])"

declare str_nat.simps [simp del]

definition str_int :: "int \<Rightarrow> string" where
  "str_int i = (if i < 0 then ''-'' @ str_nat (nat (- i)) else str_nat (nat i))"

text \<open>
  \<^verbatim>\<open>f"{len(data) / 1024:.1f}"\<close>, line 128-129, for a payload of fewer than \<open>2^53\<close> bytes
  (8 pebibytes, more than a process can hold): up to there the quotient by 1024 is exact in
  binary floating point, and the format rounds the exact value to one decimal, ties to
  even; \<open>tenths\<close> is that rounded number of tenths. From \<open>2^53\<close> bytes on Python rounds the
  quotient itself first, which this text does not follow.
\<close>

definition size_kb_text :: "nat \<Rightarrow> string" where
  "size_kb_text n =
     (let q = (n * 10) div 1024;
          r = (n * 10) mod 1024;
          tenths = (if r > 512 \<or> (r = 512 \<and> odd q) then q + 1 else q)
      in str_nat (tenths div 10) @ ''.'' @ [digit tenths])"

text \<open>The line every handler prints on the error console for a \<^verbatim>\<open>SynalinksError\<close>.\<close>

definition error_line :: "string \<Rightarrow> string" where
  "error_line msg = ''[red]Error:[/red] '' @ msg"

section \<open>The Memory Client and what the process does\<close>

text \<open>
  The SDK (\<^verbatim>\<open>synalinks_memory\<close>) is outside the repository. Its client is modelled by what
  each method answers: \<open>Inl msg\<close> is \<^verbatim>\<open>SynalinksError\<close> raised with that message, \<open>Inr x\<close> is
  the value returned. Of every answer only the attributes that the handlers read are kept.
\<close>

record predicate_info =
  name :: string
  description :: string

record predicate_list =
  tables :: "predicate_info list"
  concepts :: "predicate_info list"
  rules :: "predicate_info list"

text \<open>\<open>columns\<close> holds \<^verbatim>\<open>col.name\<close> for each column object, in order.\<close>

record 'v query_result =
  columns :: "string list"
  rows :: "'v row list"
  row_count :: int
  total_rows :: int
  result_offset :: int

record upload_result =
  up_predicate :: string
  up_columns :: "string list"
  up_row_count :: int

text \<open>The values \<^verbatim>\<open>click.Choice(["json", "csv", "parquet"])\<close> lets through.\<close>

datatype format = Json | Csv | Parquet

fun format_name :: "format \<Rightarrow> string" where
  "format_name Json = ''json''"
| "format_name Csv = ''csv''"
| "format_name Parquet = ''parquet''"

text \<open>
  \<^verbatim>\<open>client.execute\<close> is one Python method; it returns rows without \<^verbatim>\<open>format\<close> and the
  bytes of the file with it, hence two fields here. The payload of a file is a list of
  bytes.
\<close>

record 'v client =
  client_list :: "string + predicate_list"
  client_execute :: "string \<Rightarrow> int \<Rightarrow> int \<Rightarrow> string + 'v query_result"
  client_execute_file :: "string \<Rightarrow> format \<Rightarrow> int \<Rightarrow> int \<Rightarrow> string \<Rightarrow> string + nat list"
  client_search :: "string \<Rightarrow> string \<Rightarrow> int \<Rightarrow> int \<Rightarrow> string + 'v query_result"
  client_upload :: "string \<Rightarrow> string option \<Rightarrow> string option \<Rightarrow> bool \<Rightarrow> string + upload_result"
  client_ask :: "string \<Rightarrow> string + string"

text \<open>
  The constructor \<^verbatim>\<open>SynalinksMemory(**kwargs)\<close>: its two keyword arguments, each present
  or absent.
\<close>

type_synonym 'v connect = "string option \<Rightarrow> string option \<Rightarrow> string + 'v client"

text \<open>The remote calls, with the arguments the handlers pass.\<close>

datatype request =
    ListReq
  | ExecuteReq string int int
  | ExecuteFileReq string format int int string
  | SearchReq string string int int
  | UploadReq string "string option" "string option" bool
  | AskReq string

text \<open>What reaches \<^verbatim>\<open>console.print\<close>: a markup string, a table, or a markdown document.\<close>

datatype renderable = Markup string | Rich rich_text

record table =
  title :: string
  caption :: "string option"
  header :: "string list"
  body :: "renderable list list"

datatype printable = Line string | TableOut table | Markdown string

text \<open>
  \<^verbatim>\<open>console.print(x)\<close> as a handler sees it: \<open>True\<close> when the call returns, \<open>False\<close> when
  it raises. \<^verbatim>\<open>rich\<close> is outside the repository. It renders a string argument, and the
  title, the caption, the headers and the string cells of a table, as console markup, and
  \<^verbatim>\<open>rich.markup.render\<close> raises \<^verbatim>\<open>MarkupError\<close> for a closing tag that closes nothing.
  No handler catches what \<^verbatim>\<open>console.print\<close> raises, so the process then ends with a
  traceback and the exit status 1.
\<close>

type_synonym console = "printable \<Rightarrow> bool"

text \<open>
  One process run is the sequence of its effects, in order, and its exit status.
  \<open>Created\<close> is a constructor call that returned an instance, \<open>CreateFailed\<close> one that
  raised; \<open>Call\<close> is a remote call and \<open>Raised\<close> the \<^verbatim>\<open>SynalinksError\<close> it raised;
  \<open>Closed\<close> is \<^verbatim>\<open>client.close()\<close>; \<open>Print\<close> is a call of \<^verbatim>\<open>console.print\<close> and
  \<open>PrintErr\<close> a call of \<^verbatim>\<open>err_console.print\<close>, with their arguments.
\<close>

datatype event =
    Created "string option" "string option"
  | CreateFailed "string option" "string option"
  | Call request
  | Raised string
  | Closed
  | Print printable
  | PrintErr string

record outcome =
  trace :: "event list"
  status :: nat

text \<open>
  \<^verbatim>\<open>_get_client\<close>, lines 17-28. A keyword argument is passed only for a truthy option.
  The second component is \<open>None\<close> when the function has called \<^verbatim>\<open>sys.exit(1)\<close>.
\<close>

definition kwarg :: "string option \<Rightarrow> string option" where
  "kwarg x = (if truthy x then x else None)"

definition get_client ::
  "'v connect \<Rightarrow> string option \<Rightarrow> string option \<Rightarrow> event list \<times> 'v client option" where
  "get_client new api_key base_url =
     (case new (kwarg api_key) (kwarg base_url) of
        Inr client \<Rightarrow> ([Created (kwarg api_key) (kwarg base_url)], Some client)
      | Inl msg \<Rightarrow>
          ([CreateFailed (kwarg api_key) (kwarg base_url), PrintErr (error_line msg)], None))"

section \<open>The command handlers\<close>

text \<open>
  Each handler takes the constructor, the console, the two global options kept in
  \<^verbatim>\<open>ctx.obj\<close>, and its own parameters as \<^verbatim>\<open>click\<close> hands them over. In Python the
  \<^verbatim>\<open>except\<close> block prints and calls \<^verbatim>\<open>sys.exit(1)\<close>, and the \<^verbatim>\<open>finally\<close> block runs
  \<^verbatim>\<open>client.close()\<close> before the \<^verbatim>\<open>SystemExit\<close> leaves the handler. Should
  \<^verbatim>\<open>err_console.print\<close> raise there, \<^verbatim>\<open>finally\<close> still closes the client and the status is
  1 all the same, so the error console needs no model of its own.

  After the \<^verbatim>\<open>try\<close> statement the handler prints its result with \<^verbatim>\<open>console.print\<close>: when
  that call returns the handler returns and the status is 0, when it raises the status
  is 1.
\<close>

definition failed :: "event list \<Rightarrow> request \<Rightarrow> string \<Rightarrow> outcome" where
  "failed t req msg =
     \<lparr>trace = t @ [Call req, Raised msg, PrintErr (error_line msg), Closed], status = 1\<rparr>"

definition returned :: "console \<Rightarrow> event list \<Rightarrow> request \<Rightarrow> printable \<Rightarrow> outcome" where
  "returned console t req out =
     \<lparr>trace = t @ [Call req, Closed, Print out], status = (if console out then 0 else 1)\<rparr>"

text \<open>\<^verbatim>\<open>list_predicates\<close>, lines 62-90.\<close>

definition predicate_rows :: "string \<Rightarrow> predicate_info list \<Rightarrow> renderable list list" where
  "predicate_rows kind ps = map (\<lambda>p. [Markup kind, Markup (name p), Markup (description p)]) ps"

definition list_predicates :: "'v connect \<Rightarrow> console \<Rightarrow> string option \<Rightarrow> string option \<Rightarrow> outcome" where
  "list_predicates new console api_key base_url =
     (case get_client new api_key base_url of
        (t, None) \<Rightarrow> \<lparr>trace = t, status = 1\<rparr>
      | (t, Some client) \<Rightarrow>
          (case client_list client of
             Inl msg \<Rightarrow> failed t ListReq msg
           | Inr preds \<Rightarrow>
               (let tbl = \<lparr>title = ''Predicates'', caption = None,
                           header = [''Type'', ''Name'', ''Description''],
                           body = predicate_rows ''table'' (tables preds)
                                @ predicate_rows ''concept'' (concepts preds)
                                @ predicate_rows ''rule'' (rules preds)\<rparr>
                in returned console t ListReq
                     (if length (body tbl) = 0 then Line ''[dim]No predicates found.[/dim]''
                      else TableOut tbl))))"

text \<open>The table of a query result, lines 145-152 and 183-190.\<close>

definition result_table ::
  "('v \<Rightarrow> string) \<Rightarrow> string \<Rightarrow> string \<Rightarrow> 'v query_result \<Rightarrow> table" where
  "result_table str_of ttl cap result =
     \<lparr>title = ttl, caption = Some cap, header = columns result,
      body = map (\<lambda>r. map Rich (render_row str_of (columns result) r)) (rows result)\<rparr>"

text \<open>\<^verbatim>\<open>execute\<close>, lines 98-154.\<close>

definition execute ::
  "('v \<Rightarrow> string) \<Rightarrow> 'v connect \<Rightarrow> console \<Rightarrow> string option \<Rightarrow> string option \<Rightarrow>
   string \<Rightarrow> int \<Rightarrow> int \<Rightarrow> format option \<Rightarrow> string option \<Rightarrow> outcome" where
  "execute str_of new console api_key base_url predicate limit offset fmt output =
     (if truthy output \<and> fmt = None
      then \<lparr>trace = [PrintErr ''[red]Error:[/red] --output requires --format (-f).''],
            status = 1\<rparr>
      else
        (case get_client new api_key base_url of
           (t, None) \<Rightarrow> \<lparr>trace = t, status = 1\<rparr>
         | (t, Some client) \<Rightarrow>
             (case fmt of
                Some f \<Rightarrow>
                  (let output = (case output of
                                   None \<Rightarrow> predicate @ ''.'' @ format_name f
                                 | Some path \<Rightarrow> path);
                       req = ExecuteFileReq predicate f limit offset output
                   in case client_execute_file client predicate f limit offset output of
                        Inl msg \<Rightarrow> failed t req msg
                      | Inr data \<Rightarrow>
                          returned console t req
                            (Line (''[green]Saved[/green] '' @ output @ '' (''
                                   @ size_kb_text (length data) @ '' KB)'')))
              | None \<Rightarrow>
                  (let req = ExecuteReq predicate limit offset
                   in case client_execute client predicate limit offset of
                        Inl msg \<Rightarrow> failed t req msg
                      | Inr result \<Rightarrow>
                          (if rows result = []
                           then returned console t req (Line (''[dim]No rows in '' @ predicate @ ''.[/dim]''))
                           else returned console t req
                                  (TableOut (result_table str_of predicate
                                     (''Showing '' @ str_int (row_count result) @ '' of ''
                                      @ str_int (total_rows result) @ '' rows (offset ''
                                      @ str_int (result_offset result) @ '')'')
                                     result)))))))"

text \<open>
  \<^verbatim>\<open>search\<close>, lines 162-192. \<open>quoted s\<close> is \<open>s\<close> between two double quotes (character
  \<open>0x22\<close>), as the f-strings of lines 180 and 184 write it.
\<close>

definition quoted :: "string \<Rightarrow> string" where
  "quoted s = [CHR 0x22] @ s @ [CHR 0x22]"

definition search ::
  "('v \<Rightarrow> string) \<Rightarrow> 'v connect \<Rightarrow> console \<Rightarrow> string option \<Rightarrow> string option \<Rightarrow>
   string \<Rightarrow> string \<Rightarrow> int \<Rightarrow> int \<Rightarrow> outcome" where
  "search str_of new console api_key base_url predicate keywords limit offset =
     (case get_client new api_key base_url of
        (t, None) \<Rightarrow> \<lparr>trace = t, status = 1\<rparr>
      | (t, Some client) \<Rightarrow>
          (let req = SearchReq predicate keywords limit offset
           in case client_search client predicate keywords limit offset of
                Inl msg \<Rightarrow> failed t req msg
              | Inr result \<Rightarrow>
                  (if rows result = []
                   then returned console t req
                          (Line (''[dim]No results for '' @ quoted keywords @ '' in '' @ predicate
                                 @ ''.[/dim]''))
                   else returned console t req
                          (TableOut (result_table str_of
                             (''Search '' @ quoted keywords @ '' in '' @ predicate)
                             (''Showing '' @ str_int (row_count result) @ '' of ''
                              @ str_int (total_rows result) @ '' rows'')
                             result)))))"

text \<open>\<^verbatim>\<open>upload\<close> (the command \<^verbatim>\<open>add\<close>), lines 200-224.\<close>

definition upload ::
  "'v connect \<Rightarrow> console \<Rightarrow> string option \<Rightarrow> string option \<Rightarrow>
   string \<Rightarrow> string option \<Rightarrow> string option \<Rightarrow> bool \<Rightarrow> outcome" where
  "upload new console api_key base_url file nm descr overwrite =
     (case get_client new api_key base_url of
        (t, None) \<Rightarrow> \<lparr>trace = t, status = 1\<rparr>
      | (t, Some client) \<Rightarrow>
          (let req = UploadReq file nm descr overwrite
           in case client_upload client file nm descr overwrite of
                Inl msg \<Rightarrow> failed t req msg
              | Inr result \<Rightarrow>
                  (let col_names = (if up_columns result \<noteq> []
                                    then join '', '' (up_columns result) else ''-'')
                   in returned console t req
                        (TableOut \<lparr>title = ''Upload Result'', caption = None,
                                   header = [''Predicate'', ''Columns'', ''Rows''],
                                   body = [[Markup (up_predicate result), Markup col_names,
                                            Markup (str_int (up_row_count result))]]\<rparr>))))"

text \<open>\<^verbatim>\<open>_ask_cmd\<close>, lines 232-248; \<open>question\<close> is the tuple of tokens.\<close>

definition ask_cmd ::
  "'v connect \<Rightarrow> console \<Rightarrow> string option \<Rightarrow> string option \<Rightarrow> string list \<Rightarrow> outcome" where
  "ask_cmd new console api_key base_url question =
     (let full_question = join '' '' question
      in case get_client new api_key base_url of
           (t, None) \<Rightarrow> \<lparr>trace = t, status = 1\<rparr>
         | (t, Some client) \<Rightarrow>
             (case client_ask client full_question of
                Inl msg \<Rightarrow> failed t (AskReq full_question) msg
              | Inr answer \<Rightarrow> returned console t (AskReq full_question) (Markdown answer)))"

section \<open>The command router\<close>

text \<open>
  The names registered on the group by the five \<^verbatim>\<open>@cli.command\<close> decorators
  (lines 62, 98, 162, 200 and 232), which is \<^verbatim>\<open>self.commands\<close>.
\<close>

definition commands :: "string list" where
  "commands = [''list'', ''execute'', ''search'', ''add'', ''_ask'']"

text \<open>
  How \<^verbatim>\<open>click\<close> ends a run before any handler is called. \<open>NoCommand\<close> is a command line
  that leaves no token for the group: \<^verbatim>\<open>click\<close> shows the help when the command line is
  empty, and fails with \<^verbatim>\<open>Missing command.\<close> when it holds global options only.
  \<open>IndexError\<close> is Python's own exception for \<^verbatim>\<open>args[0]\<close> on an empty list.
\<close>

datatype stop =
    NoCommand
  | IndexError
  | NoSuchCommand string
  | OptionError string
  | ShowHelp
  | MissingArgument

text \<open>
  \<^verbatim>\<open>click.Group.resolve_command\<close>, the method that line 43 calls through \<^verbatim>\<open>super()\<close>:
  it looks the first token up among the registered commands and returns the command with
  the tokens after it, \<^verbatim>\<open>args[1:]\<close>; an unknown name is a usage error.
\<close>

definition group_resolve_command :: "string list \<Rightarrow> stop + string \<times> string list" where
  "group_resolve_command args =
     (case args of
        [] \<Rightarrow> Inl IndexError
      | cmd_name # rest \<Rightarrow>
          (if cmd_name \<in> set commands then Inr (cmd_name, rest)
           else Inl (NoSuchCommand cmd_name)))"

text \<open>
  \<^verbatim>\<open>_DefaultAskGroup.resolve_command\<close>, lines 38-43. The command object returned is
  named by its registered name.
\<close>

definition resolve_command :: "string list \<Rightarrow> stop + string \<times> string list" where
  "resolve_command args =
     (let cmd_name = (case args of [] \<Rightarrow> None | a # _ \<Rightarrow> Some a)
      in case cmd_name of
           Some c \<Rightarrow>
             (if c \<noteq> [] \<and> c \<notin> set commands then Inr (''_ask'', args)
              else group_resolve_command args)
         | None \<Rightarrow> group_resolve_command args)"

text \<open>
  The parameters of \<^verbatim>\<open>_ask\<close> are the argument \<^verbatim>\<open>question\<close> (\<^verbatim>\<open>nargs=-1, required=True\<close>,
  line 233) and the \<^verbatim>\<open>--help\<close> option every \<^verbatim>\<open>click\<close> command has. \<^verbatim>\<open>click\<close>'s parser
  reads the tokens from the left: \<^verbatim>\<open>--\<close> ends option processing and is dropped, a token
  that starts with \<^verbatim>\<open>-\<close> and is longer than one character is an option (only \<^verbatim>\<open>--help\<close>
  exists), every other token is collected into \<^verbatim>\<open>question\<close>. The first component of
  \<open>scan_args\<close> says whether \<^verbatim>\<open>--help\<close> was seen.
\<close>

definition option_like :: "string \<Rightarrow> bool" where
  "option_like a = (take 1 a = ''-'' \<and> length a > 1)"

fun scan_args :: "string list \<Rightarrow> stop + bool \<times> string list" where
  "scan_args [] = Inr (False, [])"
| "scan_args (a # rest) =
     (if a = ''--'' then Inr (False, rest)
      else if a = ''--help''
        then (case scan_args rest of Inl e \<Rightarrow> Inl e | Inr (h, ps) \<Rightarrow> Inr (True, ps))
      else if option_like a then Inl (OptionError a)
      else (case scan_args rest of Inl e \<Rightarrow> Inl e | Inr (h, ps) \<Rightarrow> Inr (h, a # ps)))"

definition question_args :: "string list \<Rightarrow> stop + string list" where
  "question_args args =
     (case scan_args args of
        Inl e \<Rightarrow> Inl e
      | Inr (h, ps) \<Rightarrow>
          (if h then Inl ShowHelp else if ps = [] then Inl MissingArgument else Inr ps))"

text \<open>
  One invocation, from the tokens left after the global options. With no token left
  \<^verbatim>\<open>click\<close> stops before it resolves a command (\<^verbatim>\<open>Group.parse_args\<close> and
  \<^verbatim>\<open>Group.invoke\<close>), so \<^verbatim>\<open>resolve_command\<close> is only ever called with a token. Otherwise the
  router picks the command; for \<^verbatim>\<open>_ask\<close> the tokens become the question and the handler
  runs. For the four named commands the result is the command and the tokens it is left to
  parse; their handlers above take the parsed parameters.
\<close>

datatype routed = Stopped stop | Named string "string list" | Asked outcome

definition cli ::
  "'v connect \<Rightarrow> console \<Rightarrow> string option \<Rightarrow> string option \<Rightarrow> string list \<Rightarrow> routed" where
  "cli new console api_key base_url args =
     (if args = [] then Stopped NoCommand
      else
        (case resolve_command args of
           Inl e \<Rightarrow> Stopped e
         | Inr (cmd_name, rest) \<Rightarrow>
             (if cmd_name = ''_ask''
              then (case question_args rest of
                      Inl e \<Rightarrow> Stopped e
                    | Inr question \<Rightarrow> Asked (ask_cmd new console api_key base_url question))
              else Named cmd_name rest)))"

section \<open>Parsed invocations\<close>

text \<open>
  A parsed invocation of one of the five commands. \<^verbatim>\<open>--limit\<close> and \<^verbatim>\<open>--offset\<close> are
  declared with \<^verbatim>\<open>default=20\<close> and \<^verbatim>\<open>default=0\<close> and no \<^verbatim>\<open>type\<close> (lines 100-101 and
  165-166): \<^verbatim>\<open>click\<close> converts the value given on the command line with \<^verbatim>\<open>int\<close> and checks
  no range. \<open>None\<close> is an option that was not given.
\<close>

datatype command =
    ListCmd
  | ExecuteCmd string "int option" "int option" "format option" "string option"
  | SearchCmd string string "int option" "int option"
  | AddCmd string "string option" "string option" bool
  | AskCmd "string list"

definition option_default :: "'a \<Rightarrow> 'a option \<Rightarrow> 'a" where
  "option_default d given = (case given of None \<Rightarrow> d | Some v \<Rightarrow> v)"

definition run ::
  "('v \<Rightarrow> string) \<Rightarrow> 'v connect \<Rightarrow> console \<Rightarrow>
   string option \<Rightarrow> string option \<Rightarrow> command \<Rightarrow> outcome" where
  "run str_of new console api_key base_url cmd =
     (case cmd of
        ListCmd \<Rightarrow> list_predicates new console api_key base_url
      | ExecuteCmd predicate limit offset fmt output \<Rightarrow>
          execute str_of new console api_key base_url predicate
            (option_default 20 limit) (option_default 0 offset) fmt output
      | SearchCmd predicate keywords limit offset \<Rightarrow>
          search str_of new console api_key base_url predicate keywords
            (option_default 20 limit) (option_default 0 offset)
      | AddCmd file nm descr overwrite \<Rightarrow> upload new console api_key base_url file nm descr overwrite
      | AskCmd question \<Rightarrow> ask_cmd new console api_key base_url question)"

section \<open>Reading a run\<close>

fun call_of :: "event \<Rightarrow> request list" where
  "call_of (Call r) = [r]"
| "call_of _ = []"

definition calls :: "outcome \<Rightarrow> request list" where
  "calls out = concat (map call_of (trace out))"

text \<open>The \<^verbatim>\<open>limit\<close> and \<^verbatim>\<open>offset\<close> a remote call carries, for the calls that take them.\<close>

fun window :: "request \<Rightarrow> (int \<times> int) option" where
  "window (ExecuteReq predicate limit offset) = Some (limit, offset)"
| "window (ExecuteFileReq predicate fmt limit offset output) = Some (limit, offset)"
| "window (SearchReq predicate keywords limit offset) = Some (limit, offset)"
| "window _ = None"


fun is_attempt :: "event \<Rightarrow> bool" where
  "is_attempt (Created k u) = True"
| "is_attempt (CreateFailed k u) = True"
| "is_attempt _ = False"



definition attempts :: "outcome \<Rightarrow> nat" where
  "attempts out = length (filter is_attempt (trace out))"




section \<open>Console markup\<close>

text \<open>
  What follows is the part of \<^verbatim>\<open>rich.markup\<close> that decides whether a line
  renders; the handlers above do not depend on it, they take the console as it comes.

  The tags of a markup string, as \<^verbatim>\<open>rich.markup._parse\<close> finds them with its pattern
  \<^verbatim>\<open>RE_TAGS\<close>: a tag is an opening bracket, then a lower-case letter or one of \<^verbatim>\<open>#\<close>,
  \<^verbatim>\<open>/\<close>, \<^verbatim>\<open>@\<close>, then the characters up to the next closing bracket, none of them an
  opening bracket. \<open>match_tag s\<close> reads a tag from the text \<open>s\<close> that follows an
  opening bracket and gives the text of the tag and what follows the closing bracket.
\<close>

definition tag_first :: "char \<Rightarrow> bool" where
  "tag_first c = (c \<in> set ''abcdefghijklmnopqrstuvwxyz#/@'')"

fun up_to_bracket :: "string \<Rightarrow> (string \<times> string) option" where
  "up_to_bracket [] = None"
| "up_to_bracket (c # cs) =
     (if c = CHR '']'' then Some ([], cs)
      else if c = CHR ''['' then None
      else (case up_to_bracket cs of
              None \<Rightarrow> None
            | Some (t, rest) \<Rightarrow> Some (c # t, rest)))"

definition match_tag :: "string \<Rightarrow> (string \<times> string) option" where
  "match_tag s =
     (case s of
        [] \<Rightarrow> None
      | c # cs \<Rightarrow>
          (if tag_first c
           then (case up_to_bracket cs of
                   None \<Rightarrow> None
                 | Some (t, rest) \<Rightarrow> Some (c # t, rest))
           else None))"

text \<open>
  The scan from the left, as \<^verbatim>\<open>finditer\<close> does it: \<open>n\<close> counts the backslashes (character
  \<open>0x5C\<close>) right before the current position. A tag after an odd number of backslashes is
  escaped and is plain text; the search goes on after the closing bracket of a tag, and
  after the opening bracket where no tag starts.
\<close>

function markup_tags :: "nat \<Rightarrow> string \<Rightarrow> string list" where
  "markup_tags n [] = []"
| "markup_tags n (c # cs) =
     (if c = CHR 0x5C then markup_tags (Suc n) cs
      else if c = CHR ''['' then
        (case match_tag cs of
           None \<Rightarrow> markup_tags 0 cs
         | Some (t, rest) \<Rightarrow>
             (if even n then t # markup_tags 0 rest else markup_tags 0 rest))
      else markup_tags 0 cs)"
  by pat_completeness auto

termination
proof -
  have shorter: "up_to_bracket s = Some (t, rest) \<Longrightarrow> length rest \<le> length s" for s t rest
    by (induction s arbitrary: t) (auto split: if_splits option.splits)
  have tag: "match_tag s = Some (t, rest) \<Longrightarrow> length rest < length s" for s t rest
    by (cases s) (auto simp: match_tag_def dest: shorter split: if_splits option.splits)
  show ?thesis
    by (relation "measure (\<lambda>(n, s). length s)") (auto dest: tag)
qed

text \<open>
  The name of a tag is its text before the first \<^verbatim>\<open>=\<close> (\<^verbatim>\<open>tag_text.partition("=")\<close>), and
  \<open>strip\<close> removes the blanks around it: the space and the code points 9 to 13.
\<close>

definition tag_name :: "string \<Rightarrow> string" where
  "tag_name t = takeWhile (\<lambda>c. c \<noteq> CHR ''='') t"

definition blank :: "char \<Rightarrow> bool" where
  "blank c = (c \<in> set [CHR '' '', CHR 0x09, CHR 0x0A, CHR 0x0B, CHR 0x0C, CHR 0x0D])"

definition strip :: "string \<Rightarrow> string" where
  "strip s = rev (dropWhile blank (rev (dropWhile blank s)))"

text \<open>
  The loop of \<^verbatim>\<open>rich.markup.render\<close> over the tags, with the names of the open tags as
  its stack, innermost first. A tag whose name starts with \<^verbatim>\<open>/\<close> closes: \<^verbatim>\<open>[/]\<close> the
  innermost open tag, \<^verbatim>\<open>[/name]\<close> the innermost open tag of that name, and \<open>False\<close> is the
  \<^verbatim>\<open>MarkupError\<close> raised when there is none. Tags left open are closed at the end of the
  string. Names are compared as written. \<^verbatim>\<open>rich\<close> first passes a name through
  \<^verbatim>\<open>Style.normalize\<close>, which folds its case and gives the spellings of one style (\<^verbatim>\<open>b\<close>
  and \<^verbatim>\<open>bold\<close>) one form, and it evaluates the parameters of a closed tag whose name
  starts with \<^verbatim>\<open>@\<close>; neither is followed here, and no line below has such a tag.
\<close>

fun tags_close :: "string list \<Rightarrow> string list \<Rightarrow> bool" where
  "tags_close stack [] = True"
| "tags_close stack (t # ts) =
     (if take 1 (tag_name t) = ''/''
      then (if strip (drop 1 (tag_name t)) = []
            then (case stack of [] \<Rightarrow> False | innermost # outer \<Rightarrow> tags_close outer ts)
            else if strip (drop 1 (tag_name t)) \<in> set stack
              then tags_close (remove1 (strip (drop 1 (tag_name t))) stack) ts
            else False)
      else tags_close (strip (tag_name t) # stack) ts)"

definition markup_renders :: "string \<Rightarrow> bool" where
  "markup_renders s = tags_close [] (markup_tags 0 s)"

section \<open>A concrete service and console\<close>

text \<open>
  A console to run the handlers on. It prints a line when its markup renders, a table
  without columns always (\<^verbatim>\<open>rich\<close> prints an empty line for it), any other table when its
  title, caption, headers and string cells render, and every markdown document.
\<close>

fun renders :: "renderable \<Rightarrow> bool" where
  "renders (Markup s) = markup_renders s"
| "renders (Rich t) = True"

definition demo_console :: console where
  "demo_console p =
     (case p of
        Line s \<Rightarrow> markup_renders s
      | TableOut tbl \<Rightarrow>
          (if header tbl = [] then True
           else markup_renders (title tbl)
              \<and> (case caption tbl of None \<Rightarrow> True | Some c \<Rightarrow> markup_renders c)
              \<and> list_all markup_renders (header tbl)
              \<and> list_all (list_all renders) (body tbl))
      | Markdown s \<Rightarrow> True)"

text \<open>
  A service to run the handlers on: its values are strings, the predicate \<open>Ghost\<close> and
  the question \<open>fail\<close> raise an error, the predicates \<open>Empty\<close> and \<^verbatim>\<open>[/x]\<close> have no rows,
  every other predicate has one row with a value and a \<^verbatim>\<open>None\<close>.
\<close>

definition demo_result :: "string \<Rightarrow> int \<Rightarrow> string query_result" where
  "demo_result predicate offset =
     (if predicate \<in> set [''Empty'', ''[/x]'']
      then \<lparr>columns = [''id'', ''note'', ''extra''], rows = [], row_count = 0, total_rows = 0,
            result_offset = offset\<rparr>
      else \<lparr>columns = [''id'', ''note'', ''extra''],
            rows = [[''id'' \<mapsto> Some ''1'', ''note'' \<mapsto> None]],
            row_count = 1, total_rows = 1, result_offset = offset\<rparr>)"

definition demo_client :: "string client" where
  "demo_client =
     \<lparr>client_list = Inl ''service unavailable'',
      client_execute = (\<lambda>predicate limit offset.
         if predicate = ''Ghost'' then Inl ''unknown predicate''
         else Inr (demo_result predicate offset)),
      client_execute_file = (\<lambda>predicate fmt limit offset output.
         if predicate = ''Ghost'' then Inl ''unknown predicate'' else Inr (replicate 256 0)),
      client_search = (\<lambda>predicate keywords limit offset.
         if predicate = ''Ghost'' then Inl ''unknown predicate''
         else Inr (demo_result predicate offset)),
      client_upload = (\<lambda>file nm descr overwrite.
         if overwrite then Inr \<lparr>up_predicate = ''Sales'', up_columns = [''id'', ''note''],
                                up_row_count = 1\<rparr>
         else Inl ''table exists''),
      client_ask = (\<lambda>q. if q = ''fail'' then Inl ''agent error'' else Inr ''42'')\<rparr>"

definition demo_connect :: "string connect" where
  "demo_connect api_key base_url =
     (if api_key = None then Inl ''API key required'' else Inr demo_client)"

section \<open>Properties of the cell formatting\<close>

text \<open>What \<^verbatim>\<open>strip_control_codes\<close> does to a string, and the text of a cell.\<close>

lemma strip_control_codes_length: "length (strip_control_codes s) \<le> length s"
  by (simp add: strip_control_codes_def)

lemma strip_control_codes_idem:
  "strip_control_codes (strip_control_codes s) = strip_control_codes s"
  by (simp add: strip_control_codes_def)

lemma strip_control_codes_append:
  "strip_control_codes (s @ t) = strip_control_codes s @ strip_control_codes t"
  by (simp add: strip_control_codes_def)

lemma strip_control_codes_clean:
  "set s \<inter> set STRIP_CONTROL_CODES = {} \<Longrightarrow> strip_control_codes s = s"
  unfolding strip_control_codes_def by (rule filter_True) blast

lemma strip_control_codes_shorter:
  assumes "set s \<inter> set STRIP_CONTROL_CODES \<noteq> {}"
  shows "length (strip_control_codes s) < length s"
proof -
  from assms obtain c where "c \<in> set s" and "c \<in> set STRIP_CONTROL_CODES"
    by blast
  then show ?thesis
    unfolding strip_control_codes_def by (simp add: length_filter_less)
qed

lemma strip_control_codes_dots: "strip_control_codes ''...'' = ''...''"
  by (simp add: strip_control_codes_def STRIP_CONTROL_CODES_def)

lemma plain_format_cell:
  "plain (format_cell str_of val) =
     (case val of
        None \<Rightarrow> ''null''
      | Some v \<Rightarrow>
          strip_control_codes
            (if length (str_of v) > 80 then take 77 (str_of v) @ ''...'' else str_of v))"
  by (simp add: format_cell_def Text_init_def Let_def strip_control_codes_def
        STRIP_CONTROL_CODES_def split: option.splits)

text \<open>
  Claim C4, as amended. A cell value whose string form is longer than 80 characters is
  cut to the first 77 characters of that string followed by the three characters \<open>...\<close>,
  and \<^verbatim>\<open>Text\<close> removes from these the control characters of \<^verbatim>\<open>STRIP_CONTROL_CODES\<close>. So
  the cell reads exactly the first 77 characters and \<open>...\<close>, 80 characters in all, when
  none of the first 77 characters is such a control character, and is shorter than 80
  characters when one is. This is the cell of every table row that holds such a value.
\<close>

theorem long_cell_truncated:
  assumes "80 < length (str_of v)"
  shows "format_cell str_of (Some v)
           = Text (strip_control_codes (take 77 (str_of v)) @ ''...'') []
       \<and> (set (take 77 (str_of v)) \<inter> set STRIP_CONTROL_CODES = {} \<longrightarrow>
            format_cell str_of (Some v) = Text (take 77 (str_of v) @ ''...'') []
          \<and> length (plain (format_cell str_of (Some v))) = 80)
       \<and> (set (take 77 (str_of v)) \<inter> set STRIP_CONTROL_CODES \<noteq> {} \<longrightarrow>
            length (plain (format_cell str_of (Some v))) < 80)
       \<and> (\<forall>i < length cols. row_get r (cols ! i) = Some v \<longrightarrow>
            render_row str_of cols r ! i
              = Text (strip_control_codes (take 77 (str_of v)) @ ''...'') [])"
proof -
  have cell: "format_cell str_of (Some v)
                = Text (strip_control_codes (take 77 (str_of v)) @ ''...'') []"
    using assms
    by (simp add: format_cell_def Text_init_def strip_control_codes_append
          strip_control_codes_dots)
  have len: "length (take 77 (str_of v)) = 77"
    using assms by simp
  have clean: "format_cell str_of (Some v) = Text (take 77 (str_of v) @ ''...'') []
             \<and> length (plain (format_cell str_of (Some v))) = 80"
    if "set (take 77 (str_of v)) \<inter> set STRIP_CONTROL_CODES = {}"
    using cell len strip_control_codes_clean [OF that] by simp
  have dirty: "length (plain (format_cell str_of (Some v))) < 80"
    if "set (take 77 (str_of v)) \<inter> set STRIP_CONTROL_CODES \<noteq> {}"
    using cell len strip_control_codes_shorter [OF that] by simp
  have row: "render_row str_of cols r ! i
               = Text (strip_control_codes (take 77 (str_of v)) @ ''...'') []"
    if "i < length cols" and "row_get r (cols ! i) = Some v" for i
    using that cell by (simp add: render_row_def)
  from cell clean dirty row show ?thesis
    by blast
qed

theorem long_cell_truncated_witness:
  "80 < length (id (replicate 81 CHR ''a''))
   \<and> format_cell id (Some (replicate 81 CHR ''a'')) = Text (replicate 77 CHR ''a'' @ ''...'') []
   \<and> length (plain (format_cell id (Some (replicate 81 CHR ''a'')))) = 80
   \<and> render_row id [''id'', ''note''] [''note'' \<mapsto> Some (replicate 81 CHR ''a'')] ! 1
       = Text (replicate 77 CHR ''a'' @ ''...'') []
   \<and> 80 < length (id (CHR 0x0D # replicate 80 CHR ''a''))
   \<and> length (plain (format_cell id (Some (CHR 0x0D # replicate 80 CHR ''a'')))) < 80"
proof -
  have long: "80 < length (id (replicate 81 CHR ''a''))" by simp
  have long': "80 < length (id (CHR 0x0D # replicate 80 CHR ''a''))" by simp
  have dirty: "set (take 77 (id (CHR 0x0D # replicate 80 CHR ''a''))) \<inter> set STRIP_CONTROL_CODES
                 \<noteq> {}"
    by (simp add: STRIP_CONTROL_CODES_def take_Cons')
  from long_cell_truncated [of id "CHR 0x0D # replicate 80 CHR ''a''", OF long'] dirty
  have short: "length (plain (format_cell id (Some (CHR 0x0D # replicate 80 CHR ''a'')))) < 80"
    by blast
  have clean: "set (take 77 (id (replicate 81 CHR ''a''))) \<inter> set STRIP_CONTROL_CODES = {}"
    by (simp add: STRIP_CONTROL_CODES_def)
  have stripped: "strip_control_codes (replicate 77 CHR ''a'') = replicate 77 CHR ''a''"
    by (simp add: strip_control_codes_def STRIP_CONTROL_CODES_def)
  have got: "row_get [''note'' \<mapsto> Some (replicate 81 CHR ''a'')] ([''id'', ''note''] ! 1)
               = Some (replicate 81 CHR ''a'')"
    by (simp add: row_get_def)
  from long_cell_truncated [of id "replicate 81 CHR ''a''" "[''id'', ''note'']"
         "[''note'' \<mapsto> Some (replicate 81 CHR ''a'')]"] got long clean stripped
  have "format_cell id (Some (replicate 81 CHR ''a'')) = Text (replicate 77 CHR ''a'' @ ''...'') []
      \<and> length (plain (format_cell id (Some (replicate 81 CHR ''a'')))) = 80
      \<and> render_row id [''id'', ''note''] [''note'' \<mapsto> Some (replicate 81 CHR ''a'')] ! 1
          = Text (replicate 77 CHR ''a'' @ ''...'') []"
    by simp
  with long long' short show ?thesis by blast
qed

text \<open>
  Claim C4 as stated fails for a long value with a control character among its first 77
  characters: a carriage return followed by eighty \<open>a\<close> is 81 characters long, and its
  cell reads seventy-six \<open>a\<close> and \<open>...\<close>, 79 characters, which is not the first 77
  characters of the value followed by \<open>...\<close>.
\<close>

theorem carriage_return_shortens_cell:
  "80 < length (id (CHR 0x0D # replicate 80 CHR ''a''))
   \<and> format_cell id (Some (CHR 0x0D # replicate 80 CHR ''a''))
       = Text (replicate 76 CHR ''a'' @ ''...'') []
   \<and> length (plain (format_cell id (Some (CHR 0x0D # replicate 80 CHR ''a'')))) = 79
   \<and> plain (format_cell id (Some (CHR 0x0D # replicate 80 CHR ''a'')))
       \<noteq> take 77 (id (CHR 0x0D # replicate 80 CHR ''a'')) @ ''...''"
proof -
  have cut: "take 77 (CHR 0x0D # replicate 80 CHR ''a'') = CHR 0x0D # replicate 76 CHR ''a''"
    by (simp add: take_Cons')
  have cell: "format_cell id (Some (CHR 0x0D # replicate 80 CHR ''a''))
                = Text (replicate 76 CHR ''a'' @ ''...'') []"
    by (simp add: format_cell_def Text_init_def cut strip_control_codes_def
          STRIP_CONTROL_CODES_def)
  have differs: "replicate 76 CHR ''a'' @ ''...'' \<noteq> (CHR 0x0D # replicate 76 CHR ''a'') @ ''...''"
  proof
    assume "replicate 76 CHR ''a'' @ ''...'' = (CHR 0x0D # replicate 76 CHR ''a'') @ ''...''"
    then have "length (replicate 76 CHR ''a'' @ ''...'')
                 = length ((CHR 0x0D # replicate 76 CHR ''a'') @ ''...'')"
      by (rule arg_cong)
    then show False by simp
  qed
  from cell cut differs show ?thesis by simp
qed

text \<open>
  Claim C7. A \<^verbatim>\<open>None\<close> cell is rendered as the marker \<open>null\<close> in the style
  \<open>dim italic\<close>: its text is not empty, no other value is rendered as the same object
  (the string \<open>null\<close> itself has the empty style), a key missing from the row is read as
  \<^verbatim>\<open>None\<close>, and a rendered row has one cell for each column, the marker where the value is
  missing or \<^verbatim>\<open>None\<close>.
\<close>

theorem null_cell_placeholder:
  "format_cell str_of None = Text ''null'' ''dim italic''
   \<and> plain (format_cell str_of None) \<noteq> []
   \<and> format_cell str_of (Some v) \<noteq> format_cell str_of None
   \<and> (row_get r k = None \<longleftrightarrow> r k = None \<or> r k = Some None)
   \<and> length (render_row str_of cols r) = length cols
   \<and> (\<forall>i < length cols. row_get r (cols ! i) = None \<longrightarrow>
         render_row str_of cols r ! i = Text ''null'' ''dim italic'')"
proof -
  have marker: "format_cell str_of None = Text ''null'' ''dim italic''"
    by (simp add: format_cell_def Text_init_def strip_control_codes_def STRIP_CONTROL_CODES_def)
  have other: "format_cell str_of (Some v) \<noteq> format_cell str_of None"
    unfolding marker by (simp add: format_cell_def Text_init_def Let_def)
  have get: "row_get r k = None \<longleftrightarrow> r k = None \<or> r k = Some None"
    by (auto simp: row_get_def split: option.splits)
  have cells: "render_row str_of cols r ! i = Text ''null'' ''dim italic''"
    if "i < length cols" and "row_get r (cols ! i) = None" for i
    using that marker by (simp add: render_row_def)
  from marker other get cells show ?thesis
    by (simp add: render_row_def)
qed

theorem null_cell_placeholder_witness:
  "render_row id [''id'', ''note'', ''extra''] [''id'' \<mapsto> Some ''1'', ''note'' \<mapsto> None]
     = [Text ''1'' [], Text ''null'' ''dim italic'', Text ''null'' ''dim italic'']
   \<and> format_cell id (Some ''null'') \<noteq> format_cell id None"
proof -
  let ?cols = "[''id'', ''note'', ''extra'']"
  let ?r = "[''id'' \<mapsto> Some ''1'', ''note'' \<mapsto> None] :: string row"
  note inst = null_cell_placeholder [of id "''null''" ?r "''note''" ?cols]
  have "render_row id ?cols ?r ! 1 = Text ''null'' ''dim italic''"
    using inst by (simp add: row_get_def)
  moreover have "render_row id ?cols ?r ! 2 = Text ''null'' ''dim italic''"
    using inst by (simp add: row_get_def)
  moreover have "render_row id ?cols ?r ! 0 = Text ''1'' []"
    by (simp add: render_row_def row_get_def format_cell_def Text_init_def
          strip_control_codes_def STRIP_CONTROL_CODES_def)
  moreover have "length (render_row id ?cols ?r) = 3" using inst by simp
  ultimately have whole: "render_row id ?cols ?r
      = [Text ''1'' [], Text ''null'' ''dim italic'', Text ''null'' ''dim italic'']"
    by (simp add: render_row_def)
  have differs: "format_cell id (Some ''null'') \<noteq> format_cell id None"
    using inst by blast
  from whole differs show ?thesis by (rule conjI)
qed

text \<open>
  Claim C9. For every value, \<^verbatim>\<open>None\<close> included, the rendered text is at most 80 characters
  long, and formatting the rendered string again (\<^verbatim>\<open>str\<close> of a string is the string) gives
  the same string back. The function is total as soon as \<^verbatim>\<open>str\<close> is.
\<close>

theorem format_cell_bounded_idempotent:
  "length (plain (format_cell str_of v)) \<le> 80
   \<and> format_cell (\<lambda>s. s) (Some (plain (format_cell str_of v)))
       = Text (plain (format_cell str_of v)) []"
proof -
  have bound: "length (plain (format_cell str_of v)) \<le> 80"
  proof (cases v)
    case None
    then show ?thesis by (simp add: plain_format_cell)
  next
    case (Some x)
    let ?s = "if length (str_of x) > 80 then take 77 (str_of x) @ ''...'' else str_of x"
    have "length ?s \<le> 80" by simp
    with strip_control_codes_length [of ?s] have "length (strip_control_codes ?s) \<le> 80"
      by (rule order_trans)
    with Some show ?thesis by (simp add: plain_format_cell)
  qed
  have fixed: "strip_control_codes (plain (format_cell str_of v)) = plain (format_cell str_of v)"
    by (cases v)
       (simp_all add: plain_format_cell strip_control_codes_idem,
        simp add: strip_control_codes_def STRIP_CONTROL_CODES_def)
  from bound fixed show ?thesis
    by (simp add: format_cell_def Text_init_def)
qed

theorem format_cell_bounded_idempotent_witness:
  "length (plain (format_cell id (Some (replicate 200 CHR ''x'')))) \<le> 80
   \<and> format_cell (\<lambda>s. s) (Some (plain (format_cell id (Some (replicate 200 CHR ''x'')))))
       = Text (plain (format_cell id (Some (replicate 200 CHR ''x'')))) []
   \<and> plain (format_cell id (Some (replicate 200 CHR ''x''))) = replicate 77 CHR ''x'' @ ''...''"
  using format_cell_bounded_idempotent [of id "Some (replicate 200 CHR ''x'')"]
  by (simp add: format_cell_def Text_init_def strip_control_codes_def STRIP_CONTROL_CODES_def)

section \<open>Facts about runs\<close>

text \<open>The remote calls of a run that went through the \<^verbatim>\<open>try\<close> block.\<close>

lemma calls_failed: "calls (failed t req msg) = concat (map call_of t) @ [req]"
  by (simp add: calls_def failed_def)

lemma calls_returned: "calls (returned console t req p) = concat (map call_of t) @ [req]"
  by (simp add: calls_def returned_def)

lemma calls_execute:
  "calls (execute str_of new console api_key base_url predicate limit offset fmt output)
     = (if truthy output \<and> fmt = None then []
        else case new (kwarg api_key) (kwarg base_url) of
               Inl msg \<Rightarrow> []
             | Inr client \<Rightarrow>
                 (case fmt of
                    None \<Rightarrow> [ExecuteReq predicate limit offset]
                  | Some f \<Rightarrow>
                      [ExecuteFileReq predicate f limit offset
                         (case output of
                            None \<Rightarrow> predicate @ ''.'' @ format_name f
                          | Some path \<Rightarrow> path)]))"
  by (simp add: execute_def get_client_def calls_failed calls_returned Let_def
        split: sum.splits option.splits)
     (simp add: calls_def)

lemma calls_search:
  "calls (search str_of new console api_key base_url predicate keywords limit offset)
     = (case new (kwarg api_key) (kwarg base_url) of
          Inl msg \<Rightarrow> []
        | Inr client \<Rightarrow> [SearchReq predicate keywords limit offset])"
  by (simp add: search_def get_client_def calls_failed calls_returned Let_def
        split: sum.splits)
     (simp add: calls_def)

lemma calls_ask_cmd:
  "calls (ask_cmd new console api_key base_url question)
     = (case new (kwarg api_key) (kwarg base_url) of
          Inl msg \<Rightarrow> []
        | Inr client \<Rightarrow> [AskReq (join '' '' question)])"
  by (simp add: ask_cmd_def get_client_def calls_failed calls_returned Let_def
        split: sum.splits)
     (simp add: calls_def)











text \<open>
  A handler that got a result with no rows: what it hands to the console, and the exit
  status, which is 0 only when the console prints the line.
\<close>

lemma search_empty_result:
  assumes "new (kwarg api_key) (kwarg base_url) = Inr client"
    and "client_search client predicate keywords limit offset = Inr result"
    and "rows result = []"
  shows "search str_of new console api_key base_url predicate keywords limit offset
           = \<lparr>trace = [Created (kwarg api_key) (kwarg base_url),
                       Call (SearchReq predicate keywords limit offset),
                       Closed,
                       Print (Line (''[dim]No results for '' @ [CHR 0x22] @ keywords @ [CHR 0x22]
                                    @ '' in '' @ predicate @ ''.[/dim]''))],
              status = (if console (Line (''[dim]No results for '' @ [CHR 0x22] @ keywords
                                          @ [CHR 0x22] @ '' in '' @ predicate @ ''.[/dim]''))
                        then 0 else 1)\<rparr>"
  using assms by (simp add: search_def get_client_def returned_def quoted_def)

lemma execute_empty_result:
  assumes "new (kwarg api_key) (kwarg base_url) = Inr client"
    and "\<not> truthy output"
    and "client_execute client predicate limit offset = Inr result"
    and "rows result = []"
  shows "execute str_of new console api_key base_url predicate limit offset None output
           = \<lparr>trace = [Created (kwarg api_key) (kwarg base_url),
                       Call (ExecuteReq predicate limit offset),
                       Closed,
                       Print (Line (''[dim]No rows in '' @ predicate @ ''.[/dim]''))],
              status = (if console (Line (''[dim]No rows in '' @ predicate @ ''.[/dim]''))
                        then 0 else 1)\<rparr>"
  using assms by (simp add: execute_def get_client_def returned_def)

text \<open>The tags of four lines, and whether the concrete console prints them.\<close>

lemmas markup_simps =
  markup_renders_def match_tag_def tag_first_def tag_name_def strip_def blank_def

lemma renders_no_rows_Empty: "demo_console (Line ''[dim]No rows in Empty.[/dim]'')"
  by (simp add: demo_console_def markup_simps)

lemma tags_no_rows_closing:
  "markup_tags 0 ''[dim]No rows in [/x].[/dim]'' = [''dim'', ''/x'', ''/dim'']"
  by (simp add: markup_simps)

lemma raises_no_rows_closing: "\<not> demo_console (Line ''[dim]No rows in [/x].[/dim]'')"
  by (simp add: demo_console_def markup_simps)

lemma renders_no_results_blue:
  "demo_console (Line (''[dim]No results for '' @ [CHR 0x22] @ ''blue'' @ [CHR 0x22]
                       @ '' in Empty.[/dim]''))"
  by (simp add: demo_console_def markup_simps)

lemma tags_no_results_closing:
  "markup_tags 0 (''[dim]No results for '' @ [CHR 0x22] @ ''[/x]'' @ [CHR 0x22]
                  @ '' in Empty.[/dim]'')
     = [''dim'', ''/x'', ''/dim'']"
  by (simp add: markup_simps)

lemma raises_no_results_closing:
  "\<not> demo_console (Line (''[dim]No results for '' @ [CHR 0x22] @ ''[/x]'' @ [CHR 0x22]
                         @ '' in Empty.[/dim]''))"
  by (simp add: demo_console_def markup_simps)

text \<open>Tokens none of which looks like an option are all collected, in order.\<close>

lemma scan_args_plain:
  "\<forall>a \<in> set args. \<not> option_like a \<Longrightarrow> scan_args args = Inr (False, args)"
proof (induction args)
  case Nil
  show ?case by simp
next
  case (Cons a args)
  then have "\<not> option_like a" and rest: "scan_args args = Inr (False, args)"
    by simp_all
  then have "a \<noteq> ''--''" and "a \<noteq> ''--help''"
    by (auto simp: option_like_def)
  with \<open>\<not> option_like a\<close> rest show ?case by simp
qed

section \<open>Properties of the router\<close>

text \<open>
  Claim C1, as amended. When the first token after the global options is not empty and is
  none of the registered command names \<open>list\<close>, \<open>execute\<close>, \<open>search\<close>, \<open>add\<close> and the hidden
  \<open>_ask\<close>, the router resolves to the command \<open>_ask\<close> and hands it the whole token
  sequence. When moreover no token looks like an option (a leading \<open>-\<close> and more than one
  character), the handler runs with all the tokens as its question; and once the client is
  constructed the one remote call of that handler is \<^verbatim>\<open>ask\<close> with the tokens joined by
  single spaces.
\<close>

theorem unknown_first_token_asks:
  assumes "args = first # rest"
    and "first \<noteq> []"
    and "first \<notin> set commands"
  shows "resolve_command args = Inr (''_ask'', args)
       \<and> ((\<forall>a \<in> set args. \<not> option_like a) \<longrightarrow>
            cli new console api_key base_url args
              = Asked (ask_cmd new console api_key base_url args))
       \<and> calls (ask_cmd new console api_key base_url args)
           = (case new (kwarg api_key) (kwarg base_url) of
                Inl msg \<Rightarrow> []
              | Inr client \<Rightarrow> [AskReq (join '' '' args)])"
proof -
  have routed: "resolve_command args = Inr (''_ask'', args)"
    using assms by (simp add: resolve_command_def)
  have asked: "cli new console api_key base_url args
                 = Asked (ask_cmd new console api_key base_url args)"
    if plain: "\<forall>a \<in> set args. \<not> option_like a"
  proof -
    have "scan_args args = Inr (False, args)"
      using plain by (rule scan_args_plain)
    then have "question_args args = Inr args"
      using assms(1) by (simp add: question_args_def)
    with routed assms(1) show ?thesis
      by (simp add: cli_def)
  qed
  from routed asked show ?thesis
    by (simp add: calls_ask_cmd)
qed

theorem unknown_first_token_asks_witness:
  "resolve_command [''How'', ''are'', ''sales''] = Inr (''_ask'', [''How'', ''are'', ''sales''])
   \<and> cli demo_connect demo_console (Some ''k'') None [''How'', ''are'', ''sales'']
       = Asked (ask_cmd demo_connect demo_console (Some ''k'') None [''How'', ''are'', ''sales''])
   \<and> calls (ask_cmd demo_connect demo_console (Some ''k'') None [''How'', ''are'', ''sales''])
       = [AskReq ''How are sales'']"
proof -
  have a: "[''How'', ''are'', ''sales''] = ''How'' # [''are'', ''sales'']" by simp
  have b: "''How'' \<noteq> []" by simp
  have c: "''How'' \<notin> set commands" by (simp add: commands_def)
  have d: "\<forall>a \<in> set [''How'', ''are'', ''sales'']. \<not> option_like a"
    by (simp add: option_like_def)
  from unknown_first_token_asks [OF a b c, of demo_connect demo_console "Some ''k''" None] d
  show ?thesis by (simp add: demo_connect_def kwarg_def)
qed

text \<open>
  Claim C1 as stated fails for two first tokens that are none of \<open>list\<close>, \<open>execute\<close>,
  \<open>search\<close>, \<open>add\<close>. The token \<open>_ask\<close> is a registered name, so line 43 resolves it as a
  subcommand and the question is the tokens after it, not the full sequence. The empty
  token is falsy in the test of line 40, so it reaches the inherited lookup, which knows no
  command of that name, and no question is asked.
\<close>

theorem hidden_and_empty_first_token:
  "cli demo_connect demo_console (Some ''k'') None [''_ask'', ''How'']
     = Asked (ask_cmd demo_connect demo_console (Some ''k'') None [''How''])
   \<and> calls (ask_cmd demo_connect demo_console (Some ''k'') None [''How'']) = [AskReq ''How'']
   \<and> join '' '' [''_ask'', ''How''] = ''_ask How''
   \<and> AskReq ''How'' \<noteq> AskReq (join '' '' [''_ask'', ''How''])
   \<and> ''_ask'' \<notin> set [''list'', ''execute'', ''search'', ''add'']
   \<and> cli demo_connect demo_console (Some ''k'') None [''''] = Stopped (NoSuchCommand '''')
   \<and> '''' \<notin> set [''list'', ''execute'', ''search'', ''add'']"
  by (simp add: cli_def resolve_command_def group_resolve_command_def commands_def
        question_args_def option_like_def calls_ask_cmd demo_connect_def kwarg_def)

section \<open>Properties of the handlers\<close>



text \<open>
  Claim C3, as amended. An invocation of \<open>execute\<close> with a non-empty output path and no
  format prints the usage error and exits with status 1; the constructor is not called and
  no remote call is made.
\<close>

theorem output_requires_format:
  assumes "output = Some path" and "path \<noteq> []"
  shows "run str_of new console api_key base_url (ExecuteCmd predicate limit offset None output)
           = \<lparr>trace = [PrintErr ''[red]Error:[/red] --output requires --format (-f).''],
              status = 1\<rparr>
       \<and> attempts (run str_of new console api_key base_url (ExecuteCmd predicate limit offset None output)) = 0
       \<and> calls (run str_of new console api_key base_url (ExecuteCmd predicate limit offset None output)) = []"
  using assms by (simp add: run_def execute_def attempts_def calls_def)

theorem output_requires_format_witness:
  "run id demo_connect demo_console (Some ''k'') None (ExecuteCmd ''Sales'' None None None (Some ''out.csv''))
     = \<lparr>trace = [PrintErr ''[red]Error:[/red] --output requires --format (-f).''], status = 1\<rparr>
   \<and> attempts (run id demo_connect demo_console (Some ''k'') None
                 (ExecuteCmd ''Sales'' None None None (Some ''out.csv''))) = 0
   \<and> calls (run id demo_connect demo_console (Some ''k'') None
              (ExecuteCmd ''Sales'' None None None (Some ''out.csv''))) = []"
proof -
  have given: "''out.csv'' \<noteq> []" by simp
  show ?thesis by (rule output_requires_format [OF refl given])
qed

text \<open>
  Claim C3 as stated fails when the output path given is the empty string
  (\<^verbatim>\<open>execute Empty -o ""\<close>): the test \<^verbatim>\<open>if output and not fmt\<close> of line 110 takes it for no
  output at all, the client is constructed and the query is made.
\<close>

theorem empty_output_reaches_client:
  "attempts (run id demo_connect demo_console (Some ''k'') None (ExecuteCmd ''Empty'' None None None (Some ''''))) = 1
   \<and> calls (run id demo_connect demo_console (Some ''k'') None (ExecuteCmd ''Empty'' None None None (Some '''')))
       = [ExecuteReq ''Empty'' 20 0]
   \<and> status (run id demo_connect demo_console (Some ''k'') None (ExecuteCmd ''Empty'' None None None (Some ''''))) = 0"
  using renders_no_rows_Empty
  by (simp add: run_def execute_def get_client_def demo_connect_def demo_client_def demo_result_def
        kwarg_def option_default_def attempts_def calls_def returned_def)

text \<open>
  Claim C5 does not hold of the code. Line 180 writes the keywords and the predicate name
  into a markup string as they are, so their brackets are read as tags. For the keywords
  \<^verbatim>\<open>[/x]\<close> and a result with no rows the line has the tags \<open>dim\<close>, \<open>/x\<close> and \<open>/dim\<close>; the
  second closes nothing, \<^verbatim>\<open>console.print\<close> raises, and the run ends with status 1 and no
  message. With the keywords \<open>blue\<close> the same search prints its line and ends with
  status 0.
\<close>

theorem search_keywords_read_as_markup:
  "run id demo_connect demo_console (Some ''k'') None (SearchCmd ''Empty'' ''[/x]'' None None)
     = \<lparr>trace = [Created (Some ''k'') None, Call (SearchReq ''Empty'' ''[/x]'' 20 0), Closed,
                 Print (Line (''[dim]No results for '' @ [CHR 0x22] @ ''[/x]'' @ [CHR 0x22]
                              @ '' in Empty.[/dim]''))],
        status = 1\<rparr>
   \<and> markup_tags 0 (''[dim]No results for '' @ [CHR 0x22] @ ''[/x]'' @ [CHR 0x22]
                    @ '' in Empty.[/dim]'')
       = [''dim'', ''/x'', ''/dim'']
   \<and> \<not> demo_console (Line (''[dim]No results for '' @ [CHR 0x22] @ ''[/x]'' @ [CHR 0x22]
                            @ '' in Empty.[/dim]''))
   \<and> run id demo_connect demo_console (Some ''k'') None (SearchCmd ''Empty'' ''blue'' None None)
     = \<lparr>trace = [Created (Some ''k'') None, Call (SearchReq ''Empty'' ''blue'' 20 0), Closed,
                 Print (Line (''[dim]No results for '' @ [CHR 0x22] @ ''blue'' @ [CHR 0x22]
                              @ '' in Empty.[/dim]''))],
        status = 0\<rparr>"
proof -
  have c: "demo_connect (kwarg (Some ''k'')) (kwarg None) = Inr demo_client"
    by (simp add: demo_connect_def kwarg_def)
  have e: "rows (demo_result ''Empty'' 0) = []"
    by (simp add: demo_result_def)
  have s: "client_search demo_client ''Empty'' kw 20 0 = Inr (demo_result ''Empty'' 0)" for kw
    by (simp add: demo_client_def)
  have bad: "run id demo_connect demo_console (Some ''k'') None
               (SearchCmd ''Empty'' ''[/x]'' None None)
     = \<lparr>trace = [Created (Some ''k'') None, Call (SearchReq ''Empty'' ''[/x]'' 20 0), Closed,
                 Print (Line (''[dim]No results for '' @ [CHR 0x22] @ ''[/x]'' @ [CHR 0x22]
                              @ '' in Empty.[/dim]''))],
        status = 1\<rparr>"
    using search_empty_result [where new = demo_connect and api_key = "Some ''k''"
        and base_url = None and console = demo_console and str_of = id, OF c s e, of "''[/x]''"]
      raises_no_results_closing
    by (simp add: run_def option_default_def kwarg_def)
  have good: "run id demo_connect demo_console (Some ''k'') None
                (SearchCmd ''Empty'' ''blue'' None None)
     = \<lparr>trace = [Created (Some ''k'') None, Call (SearchReq ''Empty'' ''blue'' 20 0), Closed,
                 Print (Line (''[dim]No results for '' @ [CHR 0x22] @ ''blue'' @ [CHR 0x22]
                              @ '' in Empty.[/dim]''))],
        status = 0\<rparr>"
    using search_empty_result [where new = demo_connect and api_key = "Some ''k''"
        and base_url = None and console = demo_console and str_of = id, OF c s e, of "''blue''"]
      renders_no_results_blue
    by (simp add: run_def option_default_def kwarg_def)
  from bad good tags_no_results_closing raises_no_results_closing show ?thesis
    by blast
qed

text \<open>
  Claim C6. An invocation of \<open>execute\<close> with a format and no output option makes, once the
  client is constructed, exactly one remote call, whose output path is the predicate, a dot
  and the name of the format; it makes no call when the constructor fails.
\<close>

theorem default_output_path:
  "calls (run str_of new console api_key base_url (ExecuteCmd predicate limit offset (Some f) None))
     = (case new (kwarg api_key) (kwarg base_url) of
          Inl msg \<Rightarrow> []
        | Inr client \<Rightarrow>
            [ExecuteFileReq predicate f (option_default 20 limit) (option_default 0 offset)
               (predicate @ ''.'' @ format_name f)])"
  by (simp add: run_def execute_def get_client_def calls_failed calls_returned Let_def
        split: sum.splits)
     (simp add: calls_def)

theorem default_output_path_witness:
  "calls (run id demo_connect demo_console (Some ''k'') None (ExecuteCmd ''Sales'' None None (Some Csv) None))
     = [ExecuteFileReq ''Sales'' Csv 20 0 ''Sales.csv'']"
  using default_output_path [of id demo_connect demo_console "Some ''k''" None "''Sales''" None None Csv]
  by (simp add: demo_connect_def kwarg_def option_default_def)

text \<open>
  Claim C8, as amended. Every remote call of an invocation of \<open>execute\<close> or \<open>search\<close>
  carries the limit and the offset given on the command line, unchanged, and 20 and 0 where
  they were not given. They are integers of either sign: the options declare no range.
\<close>

theorem limit_offset_passed_through:
  "(\<forall>r \<in> set (calls (run str_of new console api_key base_url (ExecuteCmd predicate limit offset fmt output))).
       window r = Some (option_default 20 limit, option_default 0 offset))
   \<and> (\<forall>r \<in> set (calls (run str_of new console api_key base_url (SearchCmd predicate keywords limit offset))).
       window r = Some (option_default 20 limit, option_default 0 offset))
   \<and> option_default 20 None = (20::int)
   \<and> option_default 0 None = (0::int)
   \<and> option_default d (Some v) = (v::int)"
  by (simp add: run_def calls_execute calls_search option_default_def
        split: sum.splits option.splits)

theorem limit_offset_passed_through_witness:
  "calls (run id demo_connect demo_console (Some ''k'') None (ExecuteCmd ''Sales'' None (Some 40) None None))
     = [ExecuteReq ''Sales'' 20 40]
   \<and> window (ExecuteReq ''Sales'' 20 40) = Some (20, 40)
   \<and> calls (run id demo_connect demo_console (Some ''k'') None (SearchCmd ''Sales'' ''blue'' (Some 5) None))
     = [SearchReq ''Sales'' ''blue'' 5 0]
   \<and> window (SearchReq ''Sales'' ''blue'' 5 0) = Some (5, 0)"
proof -
  let ?e = "run id demo_connect demo_console (Some ''k'') None (ExecuteCmd ''Sales'' None (Some 40) None None)"
  let ?s = "run id demo_connect demo_console (Some ''k'') None (SearchCmd ''Sales'' ''blue'' (Some 5) None)"
  have e: "calls ?e = [ExecuteReq ''Sales'' 20 40]"
    by (simp add: run_def execute_def get_client_def demo_connect_def demo_client_def
          demo_result_def kwarg_def option_default_def calls_def returned_def)
  have s: "calls ?s = [SearchReq ''Sales'' ''blue'' 5 0]"
    by (simp add: run_def search_def get_client_def demo_connect_def demo_client_def
          demo_result_def kwarg_def option_default_def calls_def returned_def)
  note inst = limit_offset_passed_through [of id demo_connect demo_console "Some ''k''" None "''Sales''"
      None "Some 40" None None]
  have "window (ExecuteReq ''Sales'' 20 40) = Some (20, 40)"
    using inst e by simp
  moreover
  note inst2 = limit_offset_passed_through [of id demo_connect demo_console "Some ''k''" None "''Sales''"
      "Some 5" None _ _ "''blue''"]
  have "window (SearchReq ''Sales'' ''blue'' 5 0) = Some (5, 0)"
    using inst2 s by simp
  ultimately show ?thesis using e s by simp
qed

text \<open>
  Claim C8 as stated fails: \<^verbatim>\<open>--limit=-5 --offset=-1\<close> is accepted by both commands and
  the negative values reach the service.
\<close>

theorem negative_limit_reaches_service:
  "calls (run id demo_connect demo_console (Some ''k'') None
            (ExecuteCmd ''Sales'' (Some (- 5)) (Some (- 1)) None None))
     = [ExecuteReq ''Sales'' (- 5) (- 1)]
   \<and> calls (run id demo_connect demo_console (Some ''k'') None
              (SearchCmd ''Sales'' ''blue'' (Some (- 5)) (Some (- 1))))
     = [SearchReq ''Sales'' ''blue'' (- 5) (- 1)]
   \<and> window (ExecuteReq ''Sales'' (- 5) (- 1)) = Some (- 5, - 1)
   \<and> \<not> (0::int) \<le> - 5 \<and> \<not> (0::int) \<le> - 1"
  by (simp add: run_def execute_def search_def get_client_def demo_connect_def demo_client_def
        demo_result_def kwarg_def option_default_def calls_def returned_def)

text \<open>
  Claim C10 does not hold of the code. Line 142 writes the predicate name into a markup
  string as it is, so its brackets are read as tags. For the predicate \<^verbatim>\<open>[/x]\<close>, no format
  and a result with no rows, the line has the tags \<open>dim\<close>, \<open>/x\<close> and \<open>/dim\<close>; the second
  closes nothing, \<^verbatim>\<open>console.print\<close> raises, and the run ends with status 1 and no message.
  With the predicate \<open>Empty\<close> the same command prints its line and ends with status 0.
\<close>

theorem execute_predicate_read_as_markup:
  "run id demo_connect demo_console (Some ''k'') None (ExecuteCmd ''[/x]'' None None None None)
     = \<lparr>trace = [Created (Some ''k'') None, Call (ExecuteReq ''[/x]'' 20 0), Closed,
                 Print (Line ''[dim]No rows in [/x].[/dim]'')],
        status = 1\<rparr>
   \<and> markup_tags 0 ''[dim]No rows in [/x].[/dim]'' = [''dim'', ''/x'', ''/dim'']
   \<and> \<not> demo_console (Line ''[dim]No rows in [/x].[/dim]'')
   \<and> run id demo_connect demo_console (Some ''k'') None (ExecuteCmd ''Empty'' None None None None)
     = \<lparr>trace = [Created (Some ''k'') None, Call (ExecuteReq ''Empty'' 20 0), Closed,
                 Print (Line ''[dim]No rows in Empty.[/dim]'')],
        status = 0\<rparr>"
proof -
  have c: "demo_connect (kwarg (Some ''k'')) (kwarg None) = Inr demo_client"
    by (simp add: demo_connect_def kwarg_def)
  have o: "\<not> truthy None" by simp
  have s: "client_execute demo_client p 20 0 = Inr (demo_result p 0)"
    if "p \<in> set [''Empty'', ''[/x]'']" for p
    using that by (auto simp: demo_client_def)
  have e: "rows (demo_result p 0) = []" if "p \<in> set [''Empty'', ''[/x]'']" for p
    using that by (auto simp: demo_result_def)
  have bad: "run id demo_connect demo_console (Some ''k'') None
               (ExecuteCmd ''[/x]'' None None None None)
     = \<lparr>trace = [Created (Some ''k'') None, Call (ExecuteReq ''[/x]'' 20 0), Closed,
                 Print (Line ''[dim]No rows in [/x].[/dim]'')],
        status = 1\<rparr>"
    using execute_empty_result [where console = demo_console and str_of = id
        and new = demo_connect and api_key = "Some ''k''" and base_url = None
        and predicate = "''[/x]''", OF c o s e]
      raises_no_rows_closing
    by (simp add: run_def option_default_def kwarg_def)
  have good: "run id demo_connect demo_console (Some ''k'') None
                (ExecuteCmd ''Empty'' None None None None)
     = \<lparr>trace = [Created (Some ''k'') None, Call (ExecuteReq ''Empty'' 20 0), Closed,
                 Print (Line ''[dim]No rows in Empty.[/dim]'')],
        status = 0\<rparr>"
    using execute_empty_result [where console = demo_console and str_of = id
        and new = demo_connect and api_key = "Some ''k''" and base_url = None
        and predicate = "''Empty''", OF c o s e]
      renders_no_rows_Empty
    by (simp add: run_def option_default_def kwarg_def)
  from bad good tags_no_rows_closing raises_no_rows_closing show ?thesis
    by blast
qed

end
